theory Spec2Isabelle
  imports Main "HOL-Library.Sublist"
begin

section \<open>Data model (src/types.ts)\<close>

text \<open>
  JavaScript strings are modelled as \<^typ>\<open>string\<close>: one \<^typ>\<open>char\<close> per UTF-16 code
  unit, restricted to the code units below 256. Optional fields (\<open>field?: T\<close>) and
  \<open>T | null\<close> are \<^typ>\<open>'a option\<close>; a deleted or undefined field is \<open>None\<close>.
\<close>

datatype AspectRatio = R1x1 | R16x9 | R9x16 | R4x3 | R3x4

datatype ModelType =
    Gemini25Flash           \<comment> \<open>'gemini-2.5-flash'\<close>
  | Gemini3ProPreview       \<comment> \<open>'gemini-3-pro-preview'\<close>
  | Imagen4Generate001      \<comment> \<open>'imagen-4.0-generate-001'\<close>
  | Gemini25FlashImage      \<comment> \<open>'gemini-2.5-flash-image'\<close>
  | GeminiFlashLiteLatest   \<comment> \<open>'gemini-flash-lite-latest'\<close>
  | Gemini15Flash           \<comment> \<open>'gemini-1.5-flash'\<close>

datatype Sender = User | Bot

text \<open>\<open>groundingMetadata\<close> has type \<open>any\<close>; it is only stored and copied, so an opaque
  text stands for it.\<close>

type_synonym grounding = string

record Message =
  msg_id :: string
  msg_text :: string
  thinkingText :: "string option"
  sender :: Sender
  isStreaming :: "bool option"
  msg_model :: "ModelType option"
  suggestions :: "string list option"
  imageUrl :: "string option"
  msg_aspectRatio :: "AspectRatio option"
  uploadedImageUrl :: "string option"
  groundingMetadata :: "grounding option"
  statusText :: "string option"
  isThinkingMode :: "bool option"

record ChatSession =
  session_id :: string
  title :: string
  session_messages :: "Message list"
  timestamp :: nat

section \<open>Application state (src/App.tsx, component \<open>App\<close>)\<close>

text \<open>A browser \<open>File\<close>: its name, MIME type and base64 content.\<close>

record File =
  file_name :: string
  file_type :: string
  file_base64 :: string

record StagedFile =
  staged_url :: string
  staged_file :: File

datatype Tool = GoogleSearch

record ThinkingConfig =
  thinkingBudget :: nat

record ChatConfig =
  systemInstruction :: string
  tools :: "Tool list option"
  thinkingConfig :: "ThinkingConfig option"

text \<open>One entry of the provider-facing history (\<open>Content\<close>): role and the text part.\<close>

datatype Role = RoleUser | RoleModel

record Content =
  role :: Role
  content_text :: string

text \<open>The argument of \<open>aiRef.current.chats.create\<close>, kept in \<open>chatRef.current\<close>.\<close>

record Chat =
  chat_model :: ModelType
  chat_config :: ChatConfig
  chat_history :: "Content list"

text \<open>
  The \<open>useState\<close> cells and the \<open>useRef\<close> cells of \<open>App\<close> (lines 76-97).
  \<open>aiRef\<close> records whether the provider client was created.
\<close>

record AppState =
  messages :: "Message list"
  isLoading :: bool
  model :: ModelType
  aspectRatio :: AspectRatio
  isVoiceMode :: bool
  isSearchEnabled :: bool
  isThinkingEnabled :: bool
  isTurboEnabled :: bool
  stagedFile :: "StagedFile option"
  lastGeneratedImage :: "string option"
  isSidebarOpen :: bool
  chatHistory :: "ChatSession list"
  activeChatId :: "string option"
  aiRef :: bool
  chatRef :: "Chat option"
  fullTextRef :: string

definition initial_state :: AppState where
  "initial_state =
     \<lparr>messages = [], isLoading = False, model = Gemini25Flash, aspectRatio = R1x1,
      isVoiceMode = False, isSearchEnabled = False, isThinkingEnabled = False,
      isTurboEnabled = False, stagedFile = None, lastGeneratedImage = None,
      isSidebarOpen = False, chatHistory = [], activeChatId = None,
      aiRef = False, chatRef = None, fullTextRef = []\<rparr>"

definition chatModels :: "ModelType list" where
  "chatModels = [Gemini25Flash, Gemini3ProPreview, GeminiFlashLiteLatest, Gemini15Flash]"

definition isChatModel :: "ModelType \<Rightarrow> bool" where
  "isChatModel m = (m \<in> set chatModels)"

text \<open>The list tested at lines 241 and 398.\<close>

definition supportsThinking :: "ModelType \<Rightarrow> bool" where
  "supportsThinking m = (m \<in> set [Gemini25Flash, Gemini3ProPreview, GeminiFlashLiteLatest])"

section \<open>Toggles and model change\<close>

text \<open>Lines 733-745: the three toggle handlers passed to \<open>ChatInput\<close>. Each handler
  reads the flags of the state it runs in and writes the new ones.\<close>

definition onToggleSearch :: "AppState \<Rightarrow> AppState" where
  "onToggleSearch s = s\<lparr>isSearchEnabled := \<not> isSearchEnabled s\<rparr>"

definition onToggleThinking :: "AppState \<Rightarrow> AppState" where
  "onToggleThinking s =
     (let s1 = s\<lparr>isThinkingEnabled := \<not> isThinkingEnabled s\<rparr>
      in if \<not> isThinkingEnabled s then s1\<lparr>isTurboEnabled := False\<rparr> else s1)"

definition onToggleTurbo :: "AppState \<Rightarrow> AppState" where
  "onToggleTurbo s =
     (let s1 = s\<lparr>isTurboEnabled := \<not> isTurboEnabled s\<rparr>
      in if \<not> isTurboEnabled s then s1\<lparr>isThinkingEnabled := False\<rparr> else s1)"

text \<open>Lines 306-331. \<open>URL.revokeObjectURL\<close> releases a browser resource and writes no
  state of \<open>App\<close>.\<close>

definition handleModelChange :: "ModelType \<Rightarrow> AppState \<Rightarrow> AppState" where
  "handleModelChange newModel s =
     (if model s \<noteq> newModel then
        (let s1 = s\<lparr>model := newModel, messages := [], isLoading := False,
                     stagedFile := None, lastGeneratedImage := None, activeChatId := None\<rparr>;
             newIsChat = (newModel \<in> set [Gemini25Flash, Gemini3ProPreview,
                                          GeminiFlashLiteLatest, Gemini15Flash]);
             s2 = (if \<not> newIsChat
                   then s1\<lparr>isSearchEnabled := False, isThinkingEnabled := False,
                           isTurboEnabled := False\<rparr>
                   else s1)
         in if newModel = Gemini15Flash
            then s2\<lparr>isThinkingEnabled := False, isTurboEnabled := False\<rparr>
            else s2)
      else s)"

text \<open>The operations that write the toggles, and a run of them in order.\<close>

datatype ToggleOp = ToggleThinking | ToggleTurbo | ToggleSearch | ChangeModel ModelType

fun apply_toggle :: "ToggleOp \<Rightarrow> AppState \<Rightarrow> AppState" where
  "apply_toggle ToggleThinking s = onToggleThinking s"
| "apply_toggle ToggleTurbo s = onToggleTurbo s"
| "apply_toggle ToggleSearch s = onToggleSearch s"
| "apply_toggle (ChangeModel m) s = handleModelChange m s"

fun run_toggles :: "ToggleOp list \<Rightarrow> AppState \<Rightarrow> AppState" where
  "run_toggles [] s = s"
| "run_toggles (x # xs) s = run_toggles xs (apply_toggle x s)"

section \<open>Configuration builder (\<open>initializeChat\<close>, lines 186-262)\<close>

definition nl :: string where
  "nl = [CHR 0x0A]"

text \<open>The template literal of lines 189-203.\<close>

definition baseInstruction :: string where
  \<open>baseInstruction =
     ''You are CustzAI, a helpful and friendly AI assistant.'' @ nl @
     ''    '' @ nl @
     ''    INSTRUCTION FOR SUGGESTIONS:'' @ nl @
     ''    At the very end of your response, you MUST provide 3 short, relevant follow-up actions or questions for the user.'' @ nl @
     ''    These suggestions should be like "offers" to help them do more with the topic.'' @ nl @
     ''    Format:'' @ nl @
     ''    ---SUGGESTIONS---'' @ nl @
     ''    Suggestion 1'' @ nl @
     ''    Suggestion 2'' @ nl @
     ''    Suggestion 3'' @ nl @
     '''' @ nl @
     ''    IMPORTANT: The suggestions MUST be in the SAME LANGUAGE as the user's input/your response.'' @ nl @
     ''    '' @ nl @
     ''    ARTIFACT INSTRUCTION:'' @ nl @
     ''    If the user asks to generate code for a UI, website, or component (HTML/CSS/JS), ALWAYS output a complete, self-contained single HTML file structure within ```html code blocks. Include internal CSS in <style> tags and JS in <script> tags.''\<close>

text \<open>The template literal of lines 207-228, appended when \<open>isThinkingEnabled\<close>.\<close>

definition cotInstruction :: string where
  \<open>cotInstruction =
     '''' @ nl @
     '''' @ nl @
     ''[SYSTEM OVERRIDE: CHAIN OF THOUGHT MODE ENABLED]'' @ nl @
     ''        '' @ nl @
     ''        Mekanisme Kerja:'' @ nl @
     ''        Anda harus menjelaskan langkah-langkah penalaran internal Anda SEBELUM memberikan jawaban akhir.'' @ nl @
     ''        '' @ nl @
     ''        Instruksi Wajib:'' @ nl @
     ''        1. JANGAN langsung menjawab pertanyaan inti.'' @ nl @
     ''        2. Mulailah dengan berpikir langkah demi langkah (Step-by-Step).'' @ nl @
     ''        3. Pecah masalah pengguna menjadi sub-komponen logis.'' @ nl @
     ''        4. Analisis setiap variabel dan kemungkinan kesalahan.'' @ nl @
     ''        5. Tuliskan proses berpikir ini secara eksplisit sebagai bagian dari "thought process".'' @ nl @
     ''        6. Anda WAJIB membungkus proses berpikir Anda di dalam tag XML <THOUGHT_PROCESS> ... </THOUGHT_PROCESS>.'' @ nl @
     ''        7. Jawaban akhir diberikan DI LUAR tag tersebut.'' @ nl @
     ''        '' @ nl @
     ''        Contoh Alur:'' @ nl @
     ''        <THOUGHT_PROCESS>'' @ nl @
     ''        Pertama, saya identifikasi nilai X. '' @ nl @
     ''        Kedua, saya terapkan rumus Y...'' @ nl @
     ''        </THOUGHT_PROCESS>'' @ nl @
     ''        Jawabannya adalah Z.'' @ nl @
     ''        '' @ nl @
     ''        Tujuan: Akurasi Tinggi & Transparansi.''\<close>

text \<open>Lines 189-255: the \<open>config\<close> object built from the model and the toggles.\<close>

definition buildConfig :: "AppState \<Rightarrow> ChatConfig" where
  "buildConfig s =
     (let systemInstruction0 = baseInstruction;
          systemInstruction1 =
            (if isThinkingEnabled s then systemInstruction0 @ cotInstruction
             else systemInstruction0);
          config0 = \<lparr>systemInstruction = systemInstruction1, tools = None,
                     thinkingConfig = None\<rparr>;
          config1 =
            (if isSearchEnabled s \<and> isChatModel (model s)
             then config0\<lparr>tools := Some [GoogleSearch]\<rparr> else config0)
      in if supportsThinking (model s) then
           (if isTurboEnabled s then
              config1\<lparr>thinkingConfig := Some \<lparr>thinkingBudget = 0\<rparr>\<rparr>
            else if isThinkingEnabled s then
              (let budget = (if model s = Gemini3ProPreview then 16000 else 8192)
               in config1\<lparr>thinkingConfig := Some \<lparr>thinkingBudget = budget\<rparr>\<rparr>)
            else config1)
         else config1)"

text \<open>Lines 186-262: nothing is built without a client or for a model that is not a chat
  model; otherwise the chat object is replaced.\<close>

definition initializeChat :: "Content list \<Rightarrow> AppState \<Rightarrow> AppState" where
  "initializeChat history s =
     (if \<not> aiRef s \<or> \<not> isChatModel (model s) then s
      else s\<lparr>chatRef := Some \<lparr>chat_model = model s, chat_config = buildConfig s,
                                chat_history = history\<rparr>\<rparr>)"

text \<open>The reasoning-token budget of the configuration that \<open>initializeChat\<close> leaves in
  \<open>chatRef\<close>: \<open>None\<close> when no chat object exists or the budget is unset.\<close>

definition reasoningBudget :: "AppState \<Rightarrow> nat option" where
  "reasoningBudget s =
     (case chatRef s of None \<Rightarrow> None
      | Some c \<Rightarrow> map_option thinkingBudget (thinkingConfig (chat_config c)))"

section \<open>JavaScript string operations used by the code\<close>

text \<open>\<open>js_find pat s\<close>: the text before and the text after the first occurrence of
  \<open>pat\<close> in \<open>s\<close>, or \<open>None\<close> when \<open>pat\<close> does not occur.\<close>

fun js_find :: "string \<Rightarrow> string \<Rightarrow> (string \<times> string) option" where
  "js_find pat [] = (if pat = [] then Some ([], []) else None)"
| "js_find pat (c # cs) =
     (if prefix pat (c # cs) then Some ([], drop (length pat) (c # cs))
      else (case js_find pat cs of
              None \<Rightarrow> None
            | Some (before, after) \<Rightarrow> Some (c # before, after)))"

text \<open>\<open>String.prototype.includes\<close>.\<close>

definition js_includes :: "string \<Rightarrow> string \<Rightarrow> bool" where
  "js_includes s pat = (js_find pat s \<noteq> None)"

text \<open>\<open>String.prototype.startsWith\<close>.\<close>

definition js_startsWith :: "string \<Rightarrow> string \<Rightarrow> bool" where
  "js_startsWith s pat = prefix pat s"

text \<open>\<open>String.prototype.replace\<close> with a string pattern: only the first occurrence is
  replaced. The code only passes the replacement \<open>''\<close>, which has no \<open>$\<close> patterns.\<close>

definition js_replace :: "string \<Rightarrow> string \<Rightarrow> string \<Rightarrow> string" where
  "js_replace s pat rep =
     (case js_find pat s of None \<Rightarrow> s | Some (before, after) \<Rightarrow> before @ rep @ after)"

text \<open>\<open>String.prototype.split\<close> with a string separator and no limit. The result has
  at least one element when the separator is not empty.\<close>

function js_split :: "string \<Rightarrow> string \<Rightarrow> string list" where
  "js_split s sep =
     (if sep = [] then map (\<lambda>c. [c]) s
      else (case js_find sep s of
              None \<Rightarrow> [s]
            | Some (before, after) \<Rightarrow> before # js_split after sep))"
  by pat_completeness auto
termination
proof (relation "measure (\<lambda>(s, sep). length s)")
  show "wf (measure (\<lambda>(s, sep). length s))" by simp
next
  fix s sep :: string and found :: "string \<times> string" and before after :: string
  assume sep: "sep \<noteq> []" and found: "js_find sep s = Some found"
    and pair: "(before, after) = found"
  have shorter: "js_find sep t = Some (b, a) \<Longrightarrow> length a < length t" for t b a
  proof (induction t arbitrary: b)
    case Nil
    with sep show ?case by simp
  next
    case (Cons c cs)
    show ?case
    proof (cases "prefix sep (c # cs)")
      case True
      with Cons.prems sep show ?thesis by auto
    next
      case False
      with Cons.prems obtain b' where "js_find sep cs = Some (b', a)"
        by (auto split: option.splits)
      with Cons.IH show ?thesis by fastforce
    qed
  qed
  from found pair have "js_find sep s = Some (before, after)" by simp
  then have "length after < length s" by (rule shorter)
  then show "((after, sep), (s, sep)) \<in> measure (\<lambda>(s, sep). length s)" by simp
qed

text \<open>The white space and line terminators of ECMAScript among the code units below
  256: TAB, LF, VT, FF, CR, SPACE, NBSP.\<close>

definition isWhiteSpace :: "char \<Rightarrow> bool" where
  "isWhiteSpace c =
     (c \<in> set [CHR 0x09, CHR 0x0A, CHR 0x0B, CHR 0x0C, CHR 0x0D, CHR 0x20, CHR 0xA0])"

text \<open>\<open>String.prototype.trim\<close>.\<close>

definition js_trim :: "string \<Rightarrow> string" where
  "js_trim s = rev (dropWhile isWhiteSpace (rev (dropWhile isWhiteSpace s)))"

text \<open>\<open>x += a[i]\<close> on strings: an index beyond the array reads \<open>undefined\<close>, which
  \<open>+=\<close> appends as the text \<open>undefined\<close>.\<close>

definition js_elem_text :: "string list \<Rightarrow> nat \<Rightarrow> string" where
  "js_elem_text xs i = (if i < length xs then xs ! i else ''undefined'')"

text \<open>\<open>Number.prototype.toString\<close> on a non-negative integer such as \<open>Date.now()\<close>.\<close>

function toString_nat :: "nat \<Rightarrow> string" where
  "toString_nat n =
     (if n < 10 then [char_of (48 + n)]
      else toString_nat (n div 10) @ [char_of (48 + n mod 10)])"
  by pat_completeness auto
termination
  by (relation "measure id") auto

declare js_split.simps [simp del]

declare toString_nat.simps [simp del]

section \<open>Streaming response parser (\<open>handleSendMessage\<close>, lines 561-604)\<close>

text \<open>A part of a streamed chunk. The code reads \<open>part.thought\<close> through \<open>any\<close> and
  appends it to a string: a boolean \<open>true\<close> is appended as the text \<open>true\<close>.\<close>

datatype ThoughtValue = ThoughtFlag bool | ThoughtText string

fun truthy_thought :: "ThoughtValue \<Rightarrow> bool" where
  "truthy_thought (ThoughtFlag b) = b"
| "truthy_thought (ThoughtText t) = (t \<noteq> [])"

fun thought_text :: "ThoughtValue \<Rightarrow> string" where
  "thought_text (ThoughtFlag b) = (if b then ''true'' else ''false'')"
| "thought_text (ThoughtText t) = t"

record InlineData =
  inline_data :: string
  mimeType :: string

record Part =
  part_thought :: "ThoughtValue option"
  part_text :: "string option"
  part_inlineData :: "InlineData option"

text \<open>A chunk: \<open>candidates?.[0]?.content?.parts || []\<close> and
  \<open>candidates?.[0]?.groundingMetadata\<close>.\<close>

record Chunk =
  chunk_parts :: "Part list"
  chunk_grounding :: "grounding option"

definition openTag :: string where
  "openTag = ''<THOUGHT_PROCESS>''"

definition closeTag :: string where
  "closeTag = ''</THOUGHT_PROCESS>''"

text \<open>The local variables of lines 561-565.\<close>

record StreamVars =
  fullResponseText :: string
  fullThinkingText :: string
  groundingMetadata_var :: "grounding option"
  thoughtBuffer :: string
  isInsideThinkingBlock :: bool

definition initialStreamVars :: StreamVars where
  "initialStreamVars =
     \<lparr>fullResponseText = [], fullThinkingText = [], groundingMetadata_var = None,
      thoughtBuffer = [], isInsideThinkingBlock = False\<rparr>"

text \<open>Lines 576-602: one plain-text part \<open>content\<close>; the first argument is
  \<open>isThinkingEnabled\<close>.\<close>

definition processText :: "bool \<Rightarrow> string \<Rightarrow> StreamVars \<Rightarrow> StreamVars" where
  "processText thinkingEnabled content v =
     (if thinkingEnabled then
        (let hasOpen = js_includes content openTag;
             v1 = (if hasOpen then v\<lparr>isInsideThinkingBlock := True\<rparr> else v);
             processedContent = (if hasOpen then js_replace content openTag [] else content)
         in if js_includes content closeTag then
              (let pieces = js_split processedContent closeTag;
                   thought = js_elem_text pieces 0;
                   rest = js_elem_text pieces 1
               in v1\<lparr>isInsideThinkingBlock := False,
                      fullThinkingText := fullThinkingText v1 @ thought,
                      fullResponseText := fullResponseText v1 @ rest\<rparr>)
            else if isInsideThinkingBlock v1 then
              v1\<lparr>fullThinkingText := fullThinkingText v1 @ processedContent\<rparr>
            else
              v1\<lparr>fullResponseText := fullResponseText v1 @ processedContent\<rparr>)
      else v\<lparr>fullResponseText := fullResponseText v @ content\<rparr>)"

text \<open>Lines 570-604: one part of a chunk.\<close>

definition processPart :: "bool \<Rightarrow> Part \<Rightarrow> StreamVars \<Rightarrow> StreamVars" where
  "processPart thinkingEnabled p v =
     (case part_thought p of
        Some t \<Rightarrow>
          (if truthy_thought t
           then v\<lparr>fullThinkingText := fullThinkingText v @ thought_text t\<rparr>
           else (case part_text p of
                   Some content \<Rightarrow>
                     (if content \<noteq> [] then processText thinkingEnabled content v else v)
                 | None \<Rightarrow> v))
      | None \<Rightarrow>
          (case part_text p of
             Some content \<Rightarrow>
               (if content \<noteq> [] then processText thinkingEnabled content v else v)
           | None \<Rightarrow> v))"

fun processParts :: "bool \<Rightarrow> Part list \<Rightarrow> StreamVars \<Rightarrow> StreamVars" where
  "processParts thinkingEnabled [] v = v"
| "processParts thinkingEnabled (p # ps) v =
     processParts thinkingEnabled ps (processPart thinkingEnabled p v)"

text \<open>A plain-text part, and the parser run on a sequence of text fragments (one chunk
  with one text part each) with instruction-based tagging active.\<close>

definition textPart :: "string \<Rightarrow> Part" where
  "textPart t = \<lparr>part_thought = None, part_text = Some t, part_inlineData = None\<rparr>"

definition parseFragments :: "string list \<Rightarrow> StreamVars" where
  "parseFragments frags = processParts True (map textPart frags) initialStreamVars"

text \<open>Lines 633-636: the final answer text and the suggestions. \<open>parts[0]\<close> exists, since
  \<open>split\<close> with a non-empty separator returns at least one element.\<close>

definition suggestionsSentinel :: string where
  "suggestionsSentinel = ''---SUGGESTIONS---''"

definition parseSuggestions :: "string \<Rightarrow> string \<times> string list" where
  "parseSuggestions fullResponse =
     (let parts = js_split fullResponse suggestionsSentinel;
          mainText = js_trim (hd parts);
          suggestionText =
            (if 1 < length parts \<and> parts ! 1 \<noteq> [] then js_trim (parts ! 1) else []);
          suggestions = filter (\<lambda>s. length (js_trim s) > 0) (js_split suggestionText nl)
      in (mainText, suggestions))"

section \<open>Sending a turn (\<open>handleSendMessage\<close>, lines 379-668)\<close>

text \<open>What an awaited call of a collaborator did: it threw (or its promise rejected), or
  it returned a value.\<close>

datatype 'a Result = Threw | Returned 'a

text \<open>
  What the outside world does during one turn: the two readings of \<open>Date.now()\<close>
  (lines 383 and 401), the outcome of the image-edit call (\<open>Threw\<close> also stands for a
  failed conversion of the image and for a response whose \<open>candidates\<close> cannot be read;
  \<open>Returned None\<close> for a response without candidates or parts), the text of the
  suggestion call, the bytes of the first generated image, and the chunks that the chat
  stream delivers before it closes or throws (a rejected \<open>sendMessageStream\<close> is a
  stream that throws before its first chunk).
\<close>

record TurnEnv =
  now_user :: nat
  now_bot :: nat
  edit_response :: "Part list option Result"
  suggestion_response :: "string option Result"
  images_response :: "string option Result"
  stream_chunks :: "Chunk list"
  stream_throws :: bool

text \<open>\<open>fileToDataURL\<close> (lines 35-42): the data URL that \<open>FileReader.readAsDataURL\<close> gives
  for a file when the read succeeds. A file with an empty MIME type is written with
  \<open>application/octet-stream\<close>. A read that fails is a branch of
  \<open>handleSendMessage_promise\<close> below.\<close>

definition fileToDataURL :: "File \<Rightarrow> string" where
  "fileToDataURL f =
     ''data:'' @ (if file_type f = [] then ''application/octet-stream'' else file_type f)
       @ '';base64,'' @ file_base64 f"

text \<open>\<open>setMessages(prev => prev.map(msg => msg.id === botMessageId ? f(msg) : msg))\<close>.\<close>

definition updateMessage :: "string \<Rightarrow> (Message \<Rightarrow> Message) \<Rightarrow> AppState \<Rightarrow> AppState" where
  "updateMessage botMessageId f s =
     s\<lparr>messages := map (\<lambda>msg. if msg_id msg = botMessageId then f msg else msg) (messages s)\<rparr>"

text \<open>Lines 353-377; the first argument is \<open>aiRef.current\<close>.\<close>

definition generatePostTaskSuggestions :: "bool \<Rightarrow> string option Result \<Rightarrow> string list" where
  "generatePostTaskSuggestions ai response =
     (if \<not> ai then []
      else (case response of
              Threw \<Rightarrow> []
            | Returned None \<Rightarrow> []
            | Returned (Some t) \<Rightarrow>
                (if t \<noteq> []
                 then take 3 (filter (\<lambda>s. length (js_trim s) > 0) (js_split t nl))
                 else [])))"

text \<open>Lines 455-462: one part of the image-edit response; the pair is
  \<open>(imageUrl, description)\<close>.\<close>

definition editPart :: "string \<times> string \<Rightarrow> Part \<Rightarrow> string \<times> string" where
  "editPart acc p =
     (case part_inlineData p of
        Some d \<Rightarrow> (''data:'' @ mimeType d @ '';base64,'' @ inline_data d, snd acc)
      | None \<Rightarrow>
          (case part_text p of
             Some t \<Rightarrow> (if t \<noteq> [] then (fst acc, snd acc @ t) else acc)
           | None \<Rightarrow> acc))"

text \<open>Lines 426-481: the image-edit pathway. \<open>Inl\<close> is the state in which an exception
  left the \<open>try\<close> block, \<open>Inr\<close> the state at its normal end.\<close>

definition editPathway :: "TurnEnv \<Rightarrow> AppState \<Rightarrow> string \<Rightarrow> AppState \<Rightarrow> AppState + AppState" where
  "editPathway env c botMessageId s =
     (let s1 = updateMessage botMessageId
                 (\<lambda>msg. msg\<lparr>statusText :=
                    Some ''Locking identity features & analyzing structure...''\<rparr>) s
      in case edit_response env of
           Threw \<Rightarrow> Inl s1
         | Returned r \<Rightarrow>
             (let acc = (case r of None \<Rightarrow> ([], []) | Some ps \<Rightarrow> foldl editPart ([], []) ps);
                  imageUrl' = fst acc;
                  description = snd acc;
                  suggestions' = generatePostTaskSuggestions (aiRef c) (suggestion_response env);
                  s2 = updateMessage botMessageId
                         (\<lambda>msg. msg\<lparr>isStreaming := Some False,
                            msg_text := (if description \<noteq> [] then description
                                         else ''Image edit complete.''),
                            imageUrl := (if imageUrl' \<noteq> [] then Some imageUrl' else None),
                            suggestions := Some suggestions'\<rparr>) s1
              in Inr (if imageUrl' \<noteq> [] then s2\<lparr>lastGeneratedImage := Some imageUrl'\<rparr>
                      else s2)))"

text \<open>Lines 482-539: the image-generation pathway. The prompt optimiser (lines 488-505)
  catches its own failure and only changes the prompt that is sent.\<close>

definition imagenPathway ::
  "TurnEnv \<Rightarrow> string \<Rightarrow> AppState \<Rightarrow> string \<Rightarrow> AppState \<Rightarrow> AppState + AppState" where
  "imagenPathway env text' c botMessageId s =
     (let s1 = updateMessage botMessageId
                 (\<lambda>msg. msg\<lparr>statusText :=
                    Some ''Optimizing prompt for Ultra Quality (8k)...''\<rparr>) s;
          s2 = updateMessage botMessageId
                 (\<lambda>msg. msg\<lparr>statusText := Some ''Rendering high-fidelity image...''\<rparr>) s1
      in case images_response env of
           Threw \<Rightarrow> Inl s2
         | Returned base64 \<Rightarrow>
             (let imageUrl' =
                    (case base64 of
                       None \<Rightarrow> None
                     | Some b \<Rightarrow> (if b \<noteq> [] then Some (''data:image/png;base64,'' @ b)
                                  else None));
                  suggestions' = generatePostTaskSuggestions (aiRef c) (suggestion_response env);
                  s3 = updateMessage botMessageId
                         (\<lambda>msg. msg\<lparr>isStreaming := Some False,
                            msg_text := (if imageUrl' \<noteq> None
                                         then ''Generated image for: '' @ [CHR 0x22] @ text'
                                              @ [CHR 0x22]
                                         else ''Failed to generate image.''),
                            imageUrl := imageUrl',
                            suggestions := Some suggestions'\<rparr>) s2
              in Inr (case imageUrl' of
                        Some u \<Rightarrow> s3\<lparr>lastGeneratedImage := Some u\<rparr>
                      | None \<Rightarrow> s3)))"

text \<open>Lines 569-610 of the loop body: the parts of a chunk, then its grounding metadata.
  The first argument is \<open>isThinkingEnabled\<close>.\<close>

definition chunkVars :: "bool \<Rightarrow> StreamVars \<Rightarrow> Chunk \<Rightarrow> StreamVars" where
  "chunkVars thinkingEnabled v chunk =
     (let v1 = processParts thinkingEnabled (chunk_parts chunk) v
      in case chunk_grounding chunk of
           Some g \<Rightarrow> v1\<lparr>groundingMetadata_var := Some g\<rparr>
         | None \<Rightarrow> v1)"

text \<open>Lines 606 and 612-630 of the loop body: the accumulators are written to
  \<open>fullTextRef\<close> and to the in-flight message, with a status label. \<open>c\<close> is the state
  the handler was created in (its toggles), \<open>s\<close> the current state.\<close>

definition publishChunk :: "AppState \<Rightarrow> string \<Rightarrow> bool \<Rightarrow> StreamVars \<Rightarrow> AppState \<Rightarrow> AppState" where
  "publishChunk c botMessageId shouldUseThinkingMode v s =
     (let s1 = s\<lparr>fullTextRef := fullResponseText v\<rparr>;
          status0 =
            (if isThinkingEnabled c \<and> fullResponseText v = [] \<and> fullThinkingText v \<noteq> []
             then ''Reasoning...''
             else if isThinkingEnabled c \<and> fullThinkingText v = []
             then ''Allocating logic tokens...''
             else ''Typing...'');
          status1 = (if isSearchEnabled c then ''Analyzing sources...'' else status0);
          currentStatus = (if length (fullResponseText v) > 50 then [] else status1)
      in updateMessage botMessageId
           (\<lambda>msg. msg\<lparr>msg_text := fullResponseText v,
              thinkingText := Some (fullThinkingText v),
              groundingMetadata := groundingMetadata_var v,
              statusText := Some currentStatus,
              isThinkingMode := Some shouldUseThinkingMode\<rparr>) s1)"

text \<open>Lines 567-631: the \<open>for await\<close> loop over the chunks that arrive.\<close>

fun streamLoop ::
  "AppState \<Rightarrow> string \<Rightarrow> bool \<Rightarrow> Chunk list \<Rightarrow> StreamVars \<Rightarrow> AppState \<Rightarrow> StreamVars \<times> AppState" where
  "streamLoop c botMessageId shouldUseThinkingMode [] v s = (v, s)"
| "streamLoop c botMessageId shouldUseThinkingMode (chunk # chunks) v s =
     (let v' = chunkVars (isThinkingEnabled c) v chunk
      in streamLoop c botMessageId shouldUseThinkingMode chunks v'
           (publishChunk c botMessageId shouldUseThinkingMode v' s))"

text \<open>Lines 540-652: the streaming chat pathway.\<close>

definition chatPathway ::
  "TurnEnv \<Rightarrow> AppState \<Rightarrow> string \<Rightarrow> bool \<Rightarrow> bool \<Rightarrow> AppState \<Rightarrow> AppState + AppState" where
  "chatPathway env c botMessageId shouldUseThinkingMode hasFile s =
     (let initialStatus =
            (if isSearchEnabled c then ''Searching the web...''
             else if isTurboEnabled c then ''Turbo Mode (Instant)...''
             else if isThinkingEnabled c then ''Initializing CoT Logic...''
             else if hasFile then ''Reading attachment...''
             else ''Thinking...'');
          s1 = updateMessage botMessageId (\<lambda>msg. msg\<lparr>statusText := Some initialStatus\<rparr>) s;
          vs = streamLoop c botMessageId shouldUseThinkingMode (stream_chunks env)
                 initialStreamVars s1
      in if stream_throws env then Inl (snd vs)
         else
           (let parsed = parseSuggestions (fullResponseText (fst vs));
                mainText = fst parsed;
                suggestions' = snd parsed
            in Inr (updateMessage botMessageId
                      (\<lambda>msg. msg\<lparr>isStreaming := Some False,
                         msg_text := mainText,
                         thinkingText := Some (fullThinkingText (fst vs)),
                         suggestions := (if length suggestions' > 0 then Some suggestions'
                                         else None),
                         statusText := None,
                         isThinkingMode := Some shouldUseThinkingMode\<rparr>) (snd vs))))"

definition apologyText :: string where
  "apologyText =
     ''Maaf, terjadi kesalahan saat memproses permintaan Anda. Silakan coba lagi.''"

text \<open>Lines 653-664: the \<open>catch\<close> block.\<close>

definition catchBlock :: "string \<Rightarrow> AppState \<Rightarrow> AppState" where
  "catchBlock botMessageId s =
     updateMessage botMessageId
       (\<lambda>msg. msg\<lparr>isStreaming := Some False, msg_text := apologyText\<rparr>) s"

text \<open>Lines 422-652: the \<open>try\<close> block. \<open>continuousEditImage\<close> is truthy when no file is
  staged and a non-empty last generated image exists.\<close>

definition tryBlock ::
  "TurnEnv \<Rightarrow> string \<Rightarrow> AppState \<Rightarrow> string \<Rightarrow> bool \<Rightarrow> AppState \<Rightarrow> AppState + AppState" where
  "tryBlock env text' c botMessageId shouldUseThinkingMode s =
     (let hasFile = (stagedFile c \<noteq> None);
          continuousEditImage =
            (stagedFile c = None \<and>
             (case lastGeneratedImage c of None \<Rightarrow> False | Some u \<Rightarrow> u \<noteq> []))
      in if \<not> aiRef c then Inl s
         else if model c = Gemini25FlashImage \<and> (hasFile \<or> continuousEditImage)
         then editPathway env c botMessageId s
         else if model c = Imagen4Generate001
         then imagenPathway env text' c botMessageId s
         else if isChatModel (model c) \<and> chatRef c \<noteq> None
         then chatPathway env c botMessageId shouldUseThinkingMode hasFile s
         else Inr s)"

text \<open>Line 399 and line 401.\<close>

definition shouldUseThinkingMode :: "AppState \<Rightarrow> bool" where
  "shouldUseThinkingMode s = (isThinkingEnabled s \<and> supportsThinking (model s))"

definition botMessageId :: "TurnEnv \<Rightarrow> string" where
  "botMessageId env = toString_nat (now_bot env + 1)"

text \<open>Lines 382-420: the user message and the in-flight placeholder are appended, the
  busy flag is set and the staged file is taken.\<close>

definition startTurn :: "TurnEnv \<Rightarrow> string \<Rightarrow> AppState \<Rightarrow> AppState" where
  "startTurn env text' s =
     (let userMessage0 =
            \<lparr>msg_id = toString_nat (now_user env), msg_text = text',
             thinkingText = None, sender = User, isStreaming = None, msg_model = None,
             suggestions = None, imageUrl = None, msg_aspectRatio = None,
             uploadedImageUrl = None, groundingMetadata = None, statusText = None,
             isThinkingMode = None\<rparr>;
          userMessage =
            (case stagedFile s of
               Some sf \<Rightarrow>
                 userMessage0\<lparr>uploadedImageUrl := Some (fileToDataURL (staged_file sf))\<rparr>
             | None \<Rightarrow> userMessage0);
          s1 = s\<lparr>isLoading := True, fullTextRef := []\<rparr>;
          initialBotMessage =
            \<lparr>msg_id = botMessageId env, msg_text = [], thinkingText = Some [], sender = Bot,
             isStreaming = Some True, msg_model = Some (model s), suggestions = None,
             imageUrl = None,
             msg_aspectRatio =
               (if model s = Imagen4Generate001 then Some (aspectRatio s) else None),
             uploadedImageUrl = None, groundingMetadata = None,
             statusText = Some ''Initializing...'',
             isThinkingMode = Some (shouldUseThinkingMode s)\<rparr>;
          s2 = s1\<lparr>messages := messages s1 @ [userMessage, initialBotMessage]\<rparr>
      in s2\<lparr>stagedFile := None\<rparr>)"

text \<open>
  Lines 379-668: the state when the promise of \<open>handleSendMessage\<close> settles, with no
  other handler running in between, the read of a staged file at line 390 having
  succeeded. \<open>s\<close> is both the state the handler was created in and the state it starts
  from.
\<close>

definition handleSendMessage :: "TurnEnv \<Rightarrow> string \<Rightarrow> AppState \<Rightarrow> AppState" where
  "handleSendMessage env text' s =
     (if isLoading s \<or> (js_trim text' = [] \<and> stagedFile s = None) then s
      else
        (let s4 = (case tryBlock env text' s (botMessageId env) (shouldUseThinkingMode s)
                          (startTurn env text' s) of
                     Inr done \<Rightarrow> done
                   | Inl failed \<Rightarrow> catchBlock (botMessageId env) failed)
         in s4\<lparr>isLoading := False\<rparr>))"

text \<open>
  The promise of \<open>handleSendMessage\<close>. The first argument tells whether the read of the
  staged file (\<open>await fileToDataURL(fileToSend)\<close>, line 390) fails. The read is awaited
  after the guard, before the first setter and outside the \<open>try\<close> block: a failed read
  rejects the promise (\<open>Threw\<close>) with the state as it was; otherwise the promise resolves in
  the state that \<open>handleSendMessage\<close> gives.
\<close>

definition handleSendMessage_promise ::
  "bool \<Rightarrow> TurnEnv \<Rightarrow> string \<Rightarrow> AppState \<Rightarrow> AppState Result" where
  "handleSendMessage_promise readFails env text' s =
     (if isLoading s \<or> (js_trim text' = [] \<and> stagedFile s = None)
      then Returned (handleSendMessage env text' s)
      else if stagedFile s \<noteq> None \<and> readFails then Threw
      else Returned (handleSendMessage env text' s))"

section \<open>The other handlers of \<open>App\<close> and the controls of \<open>ChatInput\<close>\<close>

text \<open>Lines 333-336. The first argument is the URL that \<open>URL.createObjectURL\<close> returns.\<close>

definition handleFileChange :: "string \<Rightarrow> File \<Rightarrow> AppState \<Rightarrow> AppState" where
  "handleFileChange objectUrl f s =
     s\<lparr>stagedFile := Some \<lparr>staged_url = objectUrl, staged_file = f\<rparr>,
       lastGeneratedImage := None\<rparr>"

text \<open>Lines 338-343.\<close>

definition handleClearStagedFile :: "AppState \<Rightarrow> AppState" where
  "handleClearStagedFile s = s\<lparr>stagedFile := None\<rparr>"

text \<open>
  Lines 345-351. The file is what \<open>dataUrlToFile\<close> returns for the image (\<open>Threw\<close> when its
  \<open>fetch\<close> rejects: then no setter runs), the URL what \<open>URL.createObjectURL\<close> returns.
  The model is set directly: no toggle is written.
\<close>

definition handleStageImageForEditing :: "string \<Rightarrow> File Result \<Rightarrow> AppState \<Rightarrow> AppState" where
  "handleStageImageForEditing objectUrl fetched s =
     (case fetched of
        Threw \<Rightarrow> s
      | Returned f \<Rightarrow>
          s\<lparr>stagedFile := Some \<lparr>staged_url = objectUrl, staged_file = f\<rparr>,
            model := Gemini25FlashImage,
            lastGeneratedImage := None\<rparr>)"

text \<open>The provider-facing history of a timeline (lines 267-270 and 676-679).\<close>

definition toContent :: "Message \<Rightarrow> Content" where
  "toContent m =
     \<lparr>role = (if sender m = User then RoleUser else RoleModel), content_text = msg_text m\<rparr>"

text \<open>Lines 670-683.\<close>

definition handleLoadChat :: "string \<Rightarrow> AppState \<Rightarrow> AppState" where
  "handleLoadChat sessionId s =
     (case find (\<lambda>x. session_id x = sessionId) (chatHistory s) of
        None \<Rightarrow> s
      | Some session \<Rightarrow>
          (let s1 = s\<lparr>messages := session_messages session,
                       activeChatId := Some (session_id session)\<rparr>
           in if aiRef s \<and> isChatModel (model s)
              then initializeChat (map toContent (session_messages session)) s1
              else s1))"

text \<open>Lines 685-691.\<close>

definition handleNewChat :: "AppState \<Rightarrow> AppState" where
  "handleNewChat s =
     initializeChat []
       (s\<lparr>messages := [], activeChatId := None, stagedFile := None,
          lastGeneratedImage := None\<rparr>)"

text \<open>The effect of lines 265-272: the chat object is built again from the timeline.\<close>

definition reinitializeChat :: "AppState \<Rightarrow> AppState" where
  "reinitializeChat s = initializeChat (map toContent (messages s)) s"

text \<open>\<open>ChatInput\<close> (second component of src/components/LiveVoiceView.tsx), lines 282-287:
  which controls are enabled for the selected model. Its \<open>isChatModel\<close> is the list of
  \<open>App\<close>.\<close>

definition isFileUploadDisabled :: "ModelType \<Rightarrow> bool" where
  "isFileUploadDisabled m = (m = Imagen4Generate001)"

definition isThinkingSupported :: "ModelType \<Rightarrow> bool" where
  "isThinkingSupported m =
     (m \<in> set [Gemini25Flash, Gemini3ProPreview, GeminiFlashLiteLatest])"

text \<open>
  What can happen to the state of \<open>App\<close>: a click on one of the three toggle buttons of
  \<open>ChatInput\<close>, a model selection, a file chosen or removed, an image staged for editing, a
  send (with the outcome of the file read and of the provider), a session loaded, a new
  chat, the aspect ratio control, the voice view and the sidebar shown or hidden, the
  provider client created at startup (lines 129-137), the chat object built again, and
  the two effects that write the session list and the active session (lines 119-127 and
  275-303; the event carries the values they write).
\<close>

datatype UiEvent =
    ClickSearch
  | ClickThinking
  | ClickTurbo
  | SelectModel ModelType
  | FileChange string File
  | ClearStagedFile
  | StageImageForEditing string "File Result"
  | SendMessage bool TurnEnv string
  | LoadChat string
  | NewChat
  | SetAspectRatio AspectRatio
  | SetVoiceMode bool
  | SetSidebarOpen bool
  | ClientReady
  | ReinitializeChat
  | HistoryEffect "ChatSession list" "string option"

text \<open>
  One event. A button with \<open>disabled\<close> set delivers no click (\<open>ChatInput\<close> lines 337, 353,
  369 and 397); the aspect ratio control is rendered for the image-generation model only
  (\<open>App\<close> line 721). A rejected send leaves the state as it was.
\<close>

fun ui_step :: "UiEvent \<Rightarrow> AppState \<Rightarrow> AppState" where
  "ui_step ClickSearch s = (if isChatModel (model s) then onToggleSearch s else s)"
| "ui_step ClickThinking s = (if isThinkingSupported (model s) then onToggleThinking s else s)"
| "ui_step ClickTurbo s = (if isThinkingSupported (model s) then onToggleTurbo s else s)"
| "ui_step (SelectModel m) s = handleModelChange m s"
| "ui_step (FileChange objectUrl f) s =
     (if isFileUploadDisabled (model s) then s else handleFileChange objectUrl f s)"
| "ui_step ClearStagedFile s = handleClearStagedFile s"
| "ui_step (StageImageForEditing objectUrl fetched) s =
     handleStageImageForEditing objectUrl fetched s"
| "ui_step (SendMessage readFails env text') s =
     (case handleSendMessage_promise readFails env text' s of
        Threw \<Rightarrow> s
      | Returned s' \<Rightarrow> s')"
| "ui_step (LoadChat sessionId) s = handleLoadChat sessionId s"
| "ui_step NewChat s = handleNewChat s"
| "ui_step (SetAspectRatio r) s =
     (if model s = Imagen4Generate001 then s\<lparr>aspectRatio := r\<rparr> else s)"
| "ui_step (SetVoiceMode b) s = s\<lparr>isVoiceMode := b\<rparr>"
| "ui_step (SetSidebarOpen b) s = s\<lparr>isSidebarOpen := b\<rparr>"
| "ui_step ClientReady s = s\<lparr>aiRef := True\<rparr>"
| "ui_step ReinitializeChat s = reinitializeChat s"
| "ui_step (HistoryEffect sessions active) s =
     s\<lparr>chatHistory := sessions, activeChatId := active\<rparr>"

text \<open>A run of events in order; the states \<open>ui_run events initial_state\<close> are the states the
  application can be in.\<close>

fun ui_run :: "UiEvent list \<Rightarrow> AppState \<Rightarrow> AppState" where
  "ui_run [] s = s"
| "ui_run (e # es) s = ui_run es (ui_step e s)"

section \<open>Persisting the history (effect of lines 141-184)\<close>

text \<open>Lines 149-161: data URLs are removed from the copy of a message.\<close>

definition cleanMsg :: "Message \<Rightarrow> Message" where
  "cleanMsg msg =
     (let m1 = (case imageUrl msg of
                  Some u \<Rightarrow> (if js_startsWith u ''data:'' then msg\<lparr>imageUrl := None\<rparr> else msg)
                | None \<Rightarrow> msg)
      in case uploadedImageUrl m1 of
           Some u \<Rightarrow> (if js_startsWith u ''data:'' then m1\<lparr>uploadedImageUrl := None\<rparr> else m1)
         | None \<Rightarrow> m1)"

definition safeHistory :: "ChatSession list \<Rightarrow> ChatSession list" where
  "safeHistory history =
     map (\<lambda>session. session\<lparr>session_messages := map cleanMsg (session_messages session)\<rparr>)
       history"

text \<open>Lines 169-175: \<open>slice(-5)\<close> keeps the last five sessions (all of them when there
  are at most five); both image fields are left out of every message.\<close>

definition emergencyHistory :: "ChatSession list \<Rightarrow> ChatSession list" where
  "emergencyHistory history =
     map (\<lambda>s. s\<lparr>session_messages :=
                 map (\<lambda>m. m\<lparr>imageUrl := None, uploadedImageUrl := None\<rparr>)
                   (session_messages s)\<rparr>)
       (drop (length history - 5) history)"

text \<open>
  \<open>localStorage\<close>: a map from keys to stored documents. The stored document is the value
  given to \<open>JSON.stringify\<close>. Which documents the bounded store accepts is decided by the
  browser; it is the parameter \<open>fits\<close>. \<open>setItem\<close> throws when the document is refused.
\<close>

type_synonym Storage = "string \<rightharpoonup> ChatSession list"

definition setItem ::
  "(ChatSession list \<Rightarrow> bool) \<Rightarrow> string \<Rightarrow> ChatSession list \<Rightarrow> Storage \<Rightarrow> Storage Result" where
  "setItem fits key doc store = (if fits doc then Returned (store(key \<mapsto> doc)) else Threw)"

text \<open>Lines 142-181: the body of the timer callback. The result is the state of \<open>App\<close>
  and the store after it, or \<open>Threw\<close> if an exception left the callback.\<close>

definition persistHistory ::
  "(ChatSession list \<Rightarrow> bool) \<Rightarrow> AppState \<Rightarrow> Storage \<Rightarrow> (AppState \<times> Storage) Result" where
  "persistHistory fits s store =
     (case setItem fits ''chatHistory'' (safeHistory (chatHistory s)) store of
        Returned store1 \<Rightarrow> Returned (s, store1)
      | Threw \<Rightarrow>
          (case setItem fits ''chatHistory'' (emergencyHistory (chatHistory s)) store of
             Returned store2 \<Rightarrow> Returned (s, store2)
           | Threw \<Rightarrow> Returned (s, store)))"

section \<open>Notions used in the statements\<close>

text \<open>The in-flight assistant message is the last message of the timeline and has the
  identifier \<open>bid\<close>.\<close>

definition inFlightLast :: "string \<Rightarrow> AppState \<Rightarrow> bool" where
  "inFlightLast bid s = (messages s \<noteq> [] \<and> msg_id (last (messages s)) = bid)"

text \<open>The last message shows the two accumulators \<open>v\<close>.\<close>

definition carries :: "StreamVars \<Rightarrow> AppState \<Rightarrow> bool" where
  "carries v s =
     (thinkingText (last (messages s)) = Some (fullThinkingText v) \<and>
      msg_text (last (messages s)) = fullResponseText v)"

text \<open>The selected model and the two exclusive toggles of a state.\<close>

definition settings :: "AppState \<Rightarrow> ModelType \<times> bool \<times> bool" where
  "settings s = (model s, isThinkingEnabled s, isTurboEnabled s)"

text \<open>Example data: a state with a client and a chat object, reasoning on; a chat stream
  that delivers one chunk and then throws.\<close>

definition chat_ready_state :: AppState where
  "chat_ready_state =
     initial_state\<lparr>aiRef := True, isThinkingEnabled := True,
       chatRef := Some \<lparr>chat_model = Gemini25Flash,
                         chat_config = \<lparr>systemInstruction = baseInstruction @ cotInstruction,
                                          tools = None,
                                          thinkingConfig = Some \<lparr>thinkingBudget = 8192\<rparr>\<rparr>,
                         chat_history = []\<rparr>\<rparr>"

definition failing_stream_env :: TurnEnv where
  "failing_stream_env =
     \<lparr>now_user = 1000, now_bot = 1000, edit_response = Threw, suggestion_response = Threw,
      images_response = Threw,
      stream_chunks =
        [\<lparr>chunk_parts = [textPart ''<THOUGHT_PROCESS>plan</THOUGHT_PROCESS>Paris''],
          chunk_grounding = None\<rparr>],
      stream_throws = True\<rparr>"

text \<open>Example data: a state in which a turn is in flight, with one message, search and
  turbo on, a generated image and an active session.\<close>

definition busy_state :: AppState where
  "busy_state =
     initial_state\<lparr>isLoading := True, isSearchEnabled := True, isTurboEnabled := True,
       lastGeneratedImage := Some ''data:image/png;base64,AAAA'',
       activeChatId := Some ''999'',
       messages :=
         [\<lparr>msg_id = ''999'', msg_text = ''Hello'', thinkingText = None, sender = User,
           isStreaming = None, msg_model = None, suggestions = None, imageUrl = None,
           msg_aspectRatio = None, uploadedImageUrl = None, groundingMetadata = None,
           statusText = None, isThinkingMode = None\<rparr>]\<rparr>"

text \<open>Example data: a session whose message has an inline image, and a history of six
  such sessions.\<close>

definition image_session :: "string \<Rightarrow> ChatSession" where
  "image_session i =
     \<lparr>session_id = i, title = ''Draw a cat'',
      session_messages =
        [\<lparr>msg_id = ''1001'', msg_text = ''Generated image'', thinkingText = None, sender = Bot,
          isStreaming = Some False, msg_model = Some Imagen4Generate001, suggestions = None,
          imageUrl = Some ''data:image/png;base64,AAAA'', msg_aspectRatio = Some R1x1,
          uploadedImageUrl = Some ''https://example.org/cat.png'', groundingMetadata = None,
          statusText = None, isThinkingMode = Some False\<rparr>],
      timestamp = 1000\<rparr>"

definition six_sessions_state :: AppState where
  "six_sessions_state =
     initial_state\<lparr>chatHistory := map image_session [''1'', ''2'', ''3'', ''4'', ''5'', ''6'']\<rparr>"

text \<open>Example data: a chat stream that delivers an answer with four suggestion lines and
  closes.\<close>

definition four_suggestions_env :: TurnEnv where
  "four_suggestions_env =
     \<lparr>now_user = 1000, now_bot = 1000, edit_response = Threw, suggestion_response = Threw,
      images_response = Threw,
      stream_chunks =
        [\<lparr>chunk_parts =
            [textPart (''A'' @ nl @ ''---SUGGESTIONS---'' @ nl @ ''1'' @ nl @ ''2'' @ nl @ ''3''
               @ nl @ ''4'')],
          chunk_grounding = None\<rparr>],
      stream_throws = False\<rparr>"

lemmas parser_defs = parseFragments_def textPart_def processPart_def processText_def
  initialStreamVars_def js_includes_def js_replace_def js_elem_text_def openTag_def closeTag_def
  Let_def js_split.simps

lemmas turn_defs = handleSendMessage_def startTurn_def tryBlock_def chatPathway_def
  catchBlock_def updateMessage_def publishChunk_def chunkVars_def botMessageId_def
  shouldUseThinkingMode_def supportsThinking_def isChatModel_def chatModels_def
  js_trim_def isWhiteSpace_def toString_nat.simps

section \<open>Properties of the toggles\<close>

lemma apply_toggle_exclusive:
  "\<not> (isThinkingEnabled s \<and> isTurboEnabled s) \<Longrightarrow>
   \<not> (isThinkingEnabled (apply_toggle x s) \<and> isTurboEnabled (apply_toggle x s))"
  by (cases x)
     (auto simp: onToggleThinking_def onToggleTurbo_def onToggleSearch_def
                 handleModelChange_def Let_def)

lemma run_toggles_exclusive:
  "\<not> (isThinkingEnabled s \<and> isTurboEnabled s) \<Longrightarrow>
   \<not> (isThinkingEnabled (run_toggles xs s) \<and> isTurboEnabled (run_toggles xs s))"
proof (induction xs arbitrary: s)
  case Nil
  then show ?case by simp
next
  case (Cons x xs)
  from Cons.prems
  have "\<not> (isThinkingEnabled (apply_toggle x s) \<and> isTurboEnabled (apply_toggle x s))"
    by (rule apply_toggle_exclusive)
  then show ?case using Cons.IH by simp
qed

text \<open>
  C2. Starting from the initial state, after every sequence of toggle operations
  (reasoning, turbo, search, model change) \<open>isThinkingEnabled\<close> and \<open>isTurboEnabled\<close> are
  not both true; and switching either one on leaves the other one off.
\<close>

theorem toggles_never_both:
  "\<not> (isThinkingEnabled (run_toggles ops initial_state) \<and>
      isTurboEnabled (run_toggles ops initial_state)) \<and>
   (\<forall>s. \<not> isThinkingEnabled s \<longrightarrow>
        isThinkingEnabled (onToggleThinking s) \<and> \<not> isTurboEnabled (onToggleThinking s)) \<and>
   (\<forall>s. \<not> isTurboEnabled s \<longrightarrow>
        isTurboEnabled (onToggleTurbo s) \<and> \<not> isThinkingEnabled (onToggleTurbo s))"
proof -
  have "\<not> (isThinkingEnabled initial_state \<and> isTurboEnabled initial_state)"
    by (simp add: initial_state_def)
  then have "\<not> (isThinkingEnabled (run_toggles ops initial_state) \<and>
      isTurboEnabled (run_toggles ops initial_state))"
    by (rule run_toggles_exclusive)
  then show ?thesis
    by (simp add: onToggleThinking_def onToggleTurbo_def)
qed

text \<open>C2, at a concrete run and at concrete states: turbo on and reasoning toggled, reasoning
  on and turbo toggled.\<close>

theorem toggles_never_both_witness:
  "\<not> isThinkingEnabled (initial_state\<lparr>isTurboEnabled := True\<rparr>) \<and>
   isThinkingEnabled (onToggleThinking (initial_state\<lparr>isTurboEnabled := True\<rparr>)) \<and>
   \<not> isTurboEnabled (onToggleThinking (initial_state\<lparr>isTurboEnabled := True\<rparr>)) \<and>
   \<not> isTurboEnabled (initial_state\<lparr>isThinkingEnabled := True\<rparr>) \<and>
   isTurboEnabled (onToggleTurbo (initial_state\<lparr>isThinkingEnabled := True\<rparr>)) \<and>
   \<not> isThinkingEnabled (onToggleTurbo (initial_state\<lparr>isThinkingEnabled := True\<rparr>)) \<and>
   \<not> (isThinkingEnabled
        (run_toggles [ToggleTurbo, ToggleThinking, ChangeModel Gemini15Flash, ToggleTurbo]
           initial_state) \<and>
      isTurboEnabled
        (run_toggles [ToggleTurbo, ToggleThinking, ChangeModel Gemini15Flash, ToggleTurbo]
           initial_state))"
  using toggles_never_both
          [of "[ToggleTurbo, ToggleThinking, ChangeModel Gemini15Flash, ToggleTurbo]"]
  by (simp add: initial_state_def)

text \<open>
  C10. Changing to a different model sets the model, empties the timeline, clears the
  loading flag, the staged file, the last generated image and the active session pointer,
  and switches off search, reasoning and turbo for a model that is not a chat model and
  reasoning and turbo for gemini-1.5-flash; selecting the active model changes nothing.
\<close>

theorem model_change_resets:
  "(model s \<noteq> newModel \<longrightarrow>
      model (handleModelChange newModel s) = newModel \<and>
      messages (handleModelChange newModel s) = [] \<and>
      \<not> isLoading (handleModelChange newModel s) \<and>
      stagedFile (handleModelChange newModel s) = None \<and>
      lastGeneratedImage (handleModelChange newModel s) = None \<and>
      activeChatId (handleModelChange newModel s) = None \<and>
      (\<not> isChatModel newModel \<longrightarrow>
         \<not> isSearchEnabled (handleModelChange newModel s) \<and>
         \<not> isThinkingEnabled (handleModelChange newModel s) \<and>
         \<not> isTurboEnabled (handleModelChange newModel s)) \<and>
      (newModel = Gemini15Flash \<longrightarrow>
         \<not> isThinkingEnabled (handleModelChange newModel s) \<and>
         \<not> isTurboEnabled (handleModelChange newModel s))) \<and>
   (model s = newModel \<longrightarrow> handleModelChange newModel s = s)"
  by (simp add: handleModelChange_def isChatModel_def chatModels_def Let_def)

text \<open>C10, at a state with a turn in flight: change to the image model, to
  gemini-1.5-flash, and to the model that is already selected.\<close>

theorem model_change_resets_witness:
  "model busy_state \<noteq> Imagen4Generate001 \<and> \<not> isChatModel Imagen4Generate001 \<and>
   messages busy_state \<noteq> [] \<and> isLoading busy_state \<and>
   model (handleModelChange Imagen4Generate001 busy_state) = Imagen4Generate001 \<and>
   messages (handleModelChange Imagen4Generate001 busy_state) = [] \<and>
   \<not> isLoading (handleModelChange Imagen4Generate001 busy_state) \<and>
   lastGeneratedImage (handleModelChange Imagen4Generate001 busy_state) = None \<and>
   activeChatId (handleModelChange Imagen4Generate001 busy_state) = None \<and>
   \<not> isSearchEnabled (handleModelChange Imagen4Generate001 busy_state) \<and>
   \<not> isTurboEnabled (handleModelChange Imagen4Generate001 busy_state) \<and>
   model busy_state \<noteq> Gemini15Flash \<and>
   \<not> isTurboEnabled (handleModelChange Gemini15Flash busy_state) \<and>
   isSearchEnabled (handleModelChange Gemini15Flash busy_state) \<and>
   model busy_state = Gemini25Flash \<and>
   handleModelChange Gemini25Flash busy_state = busy_state"
  using model_change_resets [of busy_state Imagen4Generate001]
        model_change_resets [of busy_state Gemini15Flash]
        model_change_resets [of busy_state Gemini25Flash]
  by (simp add: busy_state_def initial_state_def isChatModel_def chatModels_def
        handleModelChange_def)

section \<open>Properties of the configuration builder\<close>

subsection \<open>The handlers that leave the model and the toggles alone\<close>

lemma settings_updateMessage: "settings (updateMessage bid f s) = settings s"
  by (simp add: settings_def updateMessage_def)

lemma settings_publishChunk: "settings (publishChunk c bid should v s) = settings s"
  by (simp add: publishChunk_def Let_def settings_updateMessage) (simp add: settings_def)

lemma settings_streamLoop: "settings (snd (streamLoop c bid should chunks v s)) = settings s"
  by (induction chunks arbitrary: v s) (simp_all add: Let_def settings_publishChunk)

lemma settings_chatPathway:
  "chatPathway env c bid should hasFile s = Inl x \<or> chatPathway env c bid should hasFile s = Inr x
   \<Longrightarrow> settings x = settings s"
  by (auto simp: chatPathway_def Let_def settings_updateMessage settings_streamLoop
           split: if_splits)

lemma settings_editPathway:
  "editPathway env c bid s = Inl x \<or> editPathway env c bid s = Inr x \<Longrightarrow> settings x = settings s"
  by (auto simp: editPathway_def Let_def settings_updateMessage split: Result.splits if_splits)
     (simp_all add: settings_def updateMessage_def)

lemma settings_imagenPathway:
  "imagenPathway env t c bid s = Inl x \<or> imagenPathway env t c bid s = Inr x
   \<Longrightarrow> settings x = settings s"
  by (auto simp: imagenPathway_def Let_def settings_updateMessage
           split: Result.splits option.splits if_splits)
     (simp_all add: settings_def updateMessage_def)

lemma settings_tryBlock:
  "tryBlock env t c bid should s = Inl x \<or> tryBlock env t c bid should s = Inr x
   \<Longrightarrow> settings x = settings s"
  unfolding tryBlock_def Let_def
  using settings_chatPathway settings_editPathway settings_imagenPathway
  by (auto split: if_splits)

lemma settings_startTurn: "settings (startTurn env t s) = settings s"
  by (simp add: startTurn_def Let_def settings_def)

lemma settings_handleSendMessage: "settings (handleSendMessage env t s) = settings s"
proof (cases "isLoading s \<or> (js_trim t = [] \<and> stagedFile s = None)")
  case True
  then show ?thesis by (simp add: handleSendMessage_def)
next
  case False
  let ?r = "tryBlock env t s (botMessageId env) (shouldUseThinkingMode s) (startTurn env t s)"
  show ?thesis
  proof (cases ?r)
    case (Inl failed)
    with settings_tryBlock [of env t s "botMessageId env" "shouldUseThinkingMode s"
        "startTurn env t s" failed]
    have "settings failed = settings s" by (simp add: settings_startTurn)
    then have "settings ((catchBlock (botMessageId env) failed)\<lparr>isLoading := False\<rparr>) = settings s"
      by (simp add: catchBlock_def updateMessage_def settings_def)
    with False Inl show ?thesis by (simp add: handleSendMessage_def Let_def)
  next
    case (Inr finished)
    with settings_tryBlock [of env t s "botMessageId env" "shouldUseThinkingMode s"
        "startTurn env t s" finished]
    have "settings finished = settings s" by (simp add: settings_startTurn)
    then have "settings (finished\<lparr>isLoading := False\<rparr>) = settings s"
      by (simp add: settings_def)
    with False Inr show ?thesis by (simp add: handleSendMessage_def Let_def)
  qed
qed

lemma settings_initializeChat: "settings (initializeChat h s) = settings s"
  by (simp add: initializeChat_def settings_def)

lemma settings_handleLoadChat: "settings (handleLoadChat i s) = settings s"
  by (simp add: handleLoadChat_def Let_def settings_initializeChat split: option.splits)
     (simp add: settings_def)

lemma settings_handleNewChat: "settings (handleNewChat s) = settings s"
  by (simp add: handleNewChat_def settings_initializeChat) (simp add: settings_def)

lemma ui_step_flags:
  assumes "model s = Gemini15Flash \<longrightarrow> \<not> isThinkingEnabled s \<and> \<not> isTurboEnabled s"
  shows "model (ui_step e s) = Gemini15Flash \<longrightarrow>
         \<not> isThinkingEnabled (ui_step e s) \<and> \<not> isTurboEnabled (ui_step e s)"
proof (cases e)
  case (SendMessage readFails env t)
  have "settings (ui_step e s) = settings s"
    unfolding SendMessage
    by (simp add: handleSendMessage_promise_def settings_handleSendMessage)
  with assms show ?thesis by (simp add: settings_def)
next
  case (LoadChat i)
  have "settings (ui_step e s) = settings s"
    unfolding LoadChat by (simp add: settings_handleLoadChat)
  with assms show ?thesis by (simp add: settings_def)
next
  case NewChat
  have "settings (ui_step e s) = settings s"
    unfolding NewChat by (simp add: settings_handleNewChat)
  with assms show ?thesis by (simp add: settings_def)
next
  case ReinitializeChat
  have "settings (ui_step e s) = settings s"
    unfolding ReinitializeChat by (simp add: reinitializeChat_def settings_initializeChat)
  with assms show ?thesis by (simp add: settings_def)
next
  case (SelectModel m)
  with assms show ?thesis by (simp add: handleModelChange_def Let_def)
next
  case (StageImageForEditing u f)
  with assms show ?thesis by (simp add: handleStageImageForEditing_def split: Result.splits)
qed (use assms in \<open>auto simp: onToggleSearch_def onToggleThinking_def onToggleTurbo_def
       isThinkingSupported_def handleFileChange_def handleClearStagedFile_def Let_def\<close>)

lemma ui_run_flags:
  "model s = Gemini15Flash \<longrightarrow> \<not> isThinkingEnabled s \<and> \<not> isTurboEnabled s \<Longrightarrow>
   model (ui_run es s) = Gemini15Flash \<longrightarrow>
     \<not> isThinkingEnabled (ui_run es s) \<and> \<not> isTurboEnabled (ui_run es s)"
proof (induction es arbitrary: s)
  case Nil
  then show ?case by simp
next
  case (Cons e es)
  from Cons.prems have "model (ui_step e s) = Gemini15Flash \<longrightarrow>
         \<not> isThinkingEnabled (ui_step e s) \<and> \<not> isTurboEnabled (ui_step e s)"
    by (rule ui_step_flags)
  from Cons.IH [OF this] show ?case by simp
qed

lemma reachable_flags:
  "isChatModel (model (ui_run es initial_state)) \<Longrightarrow>
   \<not> supportsThinking (model (ui_run es initial_state)) \<Longrightarrow>
   \<not> isThinkingEnabled (ui_run es initial_state) \<and> \<not> isTurboEnabled (ui_run es initial_state)"
proof -
  assume a: "isChatModel (model (ui_run es initial_state))"
    and b: "\<not> supportsThinking (model (ui_run es initial_state))"
  from a b have "model (ui_run es initial_state) = Gemini15Flash"
    by (auto simp: isChatModel_def chatModels_def supportsThinking_def)
  moreover have "model initial_state = Gemini15Flash \<longrightarrow>
      \<not> isThinkingEnabled initial_state \<and> \<not> isTurboEnabled initial_state"
    by (simp add: initial_state_def)
  ultimately show ?thesis using ui_run_flags by blast
qed

subsection \<open>The configuration in the states the application can be in\<close>

lemma budget_table:
  "aiRef s \<Longrightarrow> isChatModel (model s) \<Longrightarrow>
   reasoningBudget (initializeChat history s) =
     (if supportsThinking (model s) \<and> isTurboEnabled s then Some 0
      else if supportsThinking (model s) \<and> isThinkingEnabled s
      then Some (if model s = Gemini3ProPreview then 16000 else 8192)
      else None)"
  by (simp add: reasoningBudget_def initializeChat_def buildConfig_def Let_def)

text \<open>
  C6. In every state the application can be in, with a client and a chat model, the
  reasoning-token budget of the configuration is 0 when turbo is on, whatever reasoning
  was before; it is 16000 for the pro model and 8192 otherwise when reasoning is on, turbo
  is off and the model supports thinking; and it is unset otherwise.
\<close>

theorem budget_on_reachable_states:
  assumes "s = ui_run events initial_state" and "aiRef s" and "isChatModel (model s)"
  shows "(isTurboEnabled s \<longrightarrow> reasoningBudget (initializeChat history s) = Some 0) \<and>
         (isThinkingEnabled s \<and> \<not> isTurboEnabled s \<and> supportsThinking (model s) \<longrightarrow>
            reasoningBudget (initializeChat history s) =
              Some (if model s = Gemini3ProPreview then 16000 else 8192)) \<and>
         (\<not> isTurboEnabled s \<and> \<not> (isThinkingEnabled s \<and> supportsThinking (model s)) \<longrightarrow>
            reasoningBudget (initializeChat history s) = None)"
proof -
  have table: "reasoningBudget (initializeChat history s) =
     (if supportsThinking (model s) \<and> isTurboEnabled s then Some 0
      else if supportsThinking (model s) \<and> isThinkingEnabled s
      then Some (if model s = Gemini3ProPreview then 16000 else 8192)
      else None)"
    using assms(2,3) by (rule budget_table)
  have turbo: "isTurboEnabled s \<longrightarrow> supportsThinking (model s)"
    using reachable_flags [of events] assms(1,3) by blast
  show ?thesis unfolding table using turbo by auto
qed

text \<open>C6, at five runs: reasoning then turbo; reasoning on the pro model; reasoning on the
  default model; no toggle; turbo, then gemini-1.5-flash selected and its disabled turbo
  button clicked.\<close>

theorem budget_on_reachable_states_witness:
  "isThinkingEnabled (ui_run [ClientReady, ClickThinking] initial_state) \<and>
   isTurboEnabled (ui_run [ClientReady, ClickThinking, ClickTurbo] initial_state) \<and>
   reasoningBudget (initializeChat []
      (ui_run [ClientReady, ClickThinking, ClickTurbo] initial_state)) = Some 0 \<and>
   reasoningBudget (initializeChat []
      (ui_run [ClientReady, SelectModel Gemini3ProPreview, ClickThinking] initial_state))
     = Some 16000 \<and>
   reasoningBudget (initializeChat []
      (ui_run [ClientReady, ClickThinking] initial_state)) = Some 8192 \<and>
   reasoningBudget (initializeChat [] (ui_run [ClientReady] initial_state)) = None \<and>
   model (ui_run [ClientReady, ClickTurbo, SelectModel Gemini15Flash, ClickTurbo] initial_state)
     = Gemini15Flash \<and>
   \<not> isTurboEnabled
       (ui_run [ClientReady, ClickTurbo, SelectModel Gemini15Flash, ClickTurbo] initial_state) \<and>
   reasoningBudget (initializeChat []
      (ui_run [ClientReady, ClickTurbo, SelectModel Gemini15Flash, ClickTurbo] initial_state))
     = None"
  using
    budget_on_reachable_states
      [of "ui_run [ClientReady, ClickThinking, ClickTurbo] initial_state"
          "[ClientReady, ClickThinking, ClickTurbo]" "[]"]
    budget_on_reachable_states
      [of "ui_run [ClientReady, SelectModel Gemini3ProPreview, ClickThinking] initial_state"
          "[ClientReady, SelectModel Gemini3ProPreview, ClickThinking]" "[]"]
    budget_on_reachable_states
      [of "ui_run [ClientReady, ClickThinking] initial_state"
          "[ClientReady, ClickThinking]" "[]"]
    budget_on_reachable_states
      [of "ui_run [ClientReady] initial_state" "[ClientReady]" "[]"]
    budget_on_reachable_states
      [of "ui_run [ClientReady, ClickTurbo, SelectModel Gemini15Flash, ClickTurbo] initial_state"
          "[ClientReady, ClickTurbo, SelectModel Gemini15Flash, ClickTurbo]" "[]"]
  by (simp add: initial_state_def isChatModel_def chatModels_def supportsThinking_def
        isThinkingSupported_def onToggleThinking_def onToggleTurbo_def handleModelChange_def
        Let_def)



section \<open>Properties of the parser, of sending and of persistence\<close>

lemma js_split_not_empty: "sep \<noteq> [] \<Longrightarrow> js_split s sep \<noteq> []"
  by (simp add: js_split.simps split: option.splits)

text \<open>
  C1 fails on the code. The character stream \<open><THOUGHT_PROCESS>B</THOUGHT_PROCESS>C\<close> cut
  inside the opening tag leaves \<open>PROCESS>B\<close> in the reasoning accumulator and
  \<open><THOUGHT_C\<close> in the answer accumulator; the same stream in one fragment gives \<open>B\<close>
  and \<open>C\<close>.
\<close>

theorem split_tag_not_detected:
  "concat [''<THOUGHT_'', ''PROCESS>B</THOUGHT_PROCESS>C''] = openTag @ ''B'' @ closeTag @ ''C'' \<and>
   fullThinkingText (parseFragments [''<THOUGHT_'', ''PROCESS>B</THOUGHT_PROCESS>C'']) = ''PROCESS>B'' \<and>
   fullResponseText (parseFragments [''<THOUGHT_'', ''PROCESS>B</THOUGHT_PROCESS>C'']) = ''<THOUGHT_C'' \<and>
   fullThinkingText (parseFragments [''<THOUGHT_PROCESS>B</THOUGHT_PROCESS>C'']) = ''B'' \<and>
   fullResponseText (parseFragments [''<THOUGHT_PROCESS>B</THOUGHT_PROCESS>C'']) = ''C''"
  by (simp add: parser_defs)

text \<open>
  C7 fails on the code. Outside a reasoning block, the fragment \<open>A<THOUGHT_PROCESS>B\<close>
  puts the text \<open>A\<close> that precedes the tag into the reasoning accumulator, not into the
  answer accumulator.
\<close>

theorem text_before_open_tag:
  "\<not> isInsideThinkingBlock initialStreamVars \<and>
   fullResponseText (processText True ''A<THOUGHT_PROCESS>B'' initialStreamVars) = [] \<and>
   fullThinkingText (processText True ''A<THOUGHT_PROCESS>B'' initialStreamVars) = ''AB'' \<and>
   isInsideThinkingBlock (processText True ''A<THOUGHT_PROCESS>B'' initialStreamVars)"
  by (simp add: parser_defs)

text \<open>
  C3 fails on the code. An answer followed by the sentinel and four lines gives a message
  with four suggestions; the suggestion call of the image pathways keeps three of the
  same four lines. The example of the specification, with two lines, gives its two
  suggestions.
\<close>

theorem suggestions_not_capped:
  "suggestions
     (last (messages (handleSendMessage four_suggestions_env ''Hi'' chat_ready_state)))
     = Some [''1'', ''2'', ''3'', ''4''] \<and>
   msg_text (last (messages (handleSendMessage four_suggestions_env ''Hi'' chat_ready_state)))
     = ''A'' \<and>
   parseSuggestions
     (''A'' @ nl @ ''---SUGGESTIONS---'' @ nl @ ''1'' @ nl @ ''2'' @ nl @ ''3'' @ nl @ ''4'')
     = (''A'', [''1'', ''2'', ''3'', ''4'']) \<and>
   generatePostTaskSuggestions True
     (Returned (Some (''1'' @ nl @ ''2'' @ nl @ ''3'' @ nl @ ''4'')))
     = [''1'', ''2'', ''3''] \<and>
   parseSuggestions
     (''Paris is the capital.'' @ nl @ ''---SUGGESTIONS---'' @ nl @ ''Tell me more'' @ nl
        @ ''Show a map'' @ nl @ nl)
     = (''Paris is the capital.'', [''Tell me more'', ''Show a map''])"
  by (simp add: turn_defs parser_defs four_suggestions_env_def chat_ready_state_def
        initial_state_def parseSuggestions_def suggestionsSentinel_def nl_def
        generatePostTaskSuggestions_def)

text \<open>
  C5. While a turn is in flight (\<open>isLoading\<close>), sending again changes nothing: the
  timeline and every other part of the state are as before.
\<close>

theorem busy_send_dropped: "isLoading s \<Longrightarrow> handleSendMessage env text' s = s"
  by (simp add: handleSendMessage_def)

text \<open>C5, at a state with a turn in flight and a non-empty text.\<close>

theorem busy_send_dropped_witness:
  "isLoading busy_state \<and> js_trim ''Second question'' \<noteq> [] \<and>
   handleSendMessage failing_stream_env ''Second question'' busy_state = busy_state \<and>
   messages (handleSendMessage failing_stream_env ''Second question'' busy_state)
     = messages busy_state"
  using busy_send_dropped [of busy_state failing_stream_env "''Second question''"]
  by (simp add: busy_state_def initial_state_def js_trim_def isWhiteSpace_def)

lemma emergency_clean:
  "\<forall>sess \<in> set (emergencyHistory h). \<forall>m \<in> set (session_messages sess).
      imageUrl m = None \<and> uploadedImageUrl m = None"
  by (auto simp: emergencyHistory_def dest!: in_set_dropD)

text \<open>
  C9. When the store refuses the sanitised full history, the callback tries the last five
  sessions with both image fields removed from every message, and stores them if they
  fit; if they are refused too, the store is left as it was. In every case the callback
  returns without an exception and the state of the application is unchanged.
\<close>

theorem persist_fallback:
  "\<not> fits (safeHistory (chatHistory s)) \<Longrightarrow>
   persistHistory fits s store =
     Returned (s, if fits (emergencyHistory (chatHistory s))
                  then store(''chatHistory'' \<mapsto> emergencyHistory (chatHistory s))
                  else store) \<and>
   length (emergencyHistory (chatHistory s)) = min 5 (length (chatHistory s)) \<and>
   map session_id (emergencyHistory (chatHistory s)) =
     drop (length (chatHistory s) - 5) (map session_id (chatHistory s)) \<and>
   (\<forall>sess \<in> set (emergencyHistory (chatHistory s)). \<forall>m \<in> set (session_messages sess).
      imageUrl m = None \<and> uploadedImageUrl m = None)"
proof -
  assume "\<not> fits (safeHistory (chatHistory s))"
  then have "persistHistory fits s store =
     Returned (s, if fits (emergencyHistory (chatHistory s))
                  then store(''chatHistory'' \<mapsto> emergencyHistory (chatHistory s))
                  else store)"
    by (simp add: persistHistory_def setItem_def)
  moreover have "length (emergencyHistory (chatHistory s)) = min 5 (length (chatHistory s))"
    by (simp add: emergencyHistory_def)
  moreover have "map session_id (emergencyHistory (chatHistory s)) =
     drop (length (chatHistory s) - 5) (map session_id (chatHistory s))"
    by (simp add: emergencyHistory_def drop_map comp_def)
  ultimately show ?thesis using emergency_clean by blast
qed

text \<open>C9, at a history of six sessions: with a store that takes at most five sessions,
  and with a store that takes nothing.\<close>

theorem persist_fallback_witness:
  "\<not> (\<lambda>doc. length doc \<le> 5) (safeHistory (chatHistory six_sessions_state)) \<and>
   persistHistory (\<lambda>doc. length doc \<le> 5) six_sessions_state Map.empty =
     Returned (six_sessions_state,
               [''chatHistory'' \<mapsto> emergencyHistory (chatHistory six_sessions_state)]) \<and>
   map session_id (emergencyHistory (chatHistory six_sessions_state)) =
     [''2'', ''3'', ''4'', ''5'', ''6''] \<and>
   map (map uploadedImageUrl \<circ> session_messages)
     (emergencyHistory (chatHistory six_sessions_state)) = replicate 5 [None] \<and>
   \<not> (\<lambda>doc. False) (safeHistory (chatHistory six_sessions_state)) \<and>
   persistHistory (\<lambda>doc. False) six_sessions_state Map.empty =
     Returned (six_sessions_state, Map.empty)"
  using persist_fallback [of "\<lambda>doc. length doc \<le> 5" six_sessions_state Map.empty]
        persist_fallback [of "\<lambda>doc. False" six_sessions_state Map.empty]
  by (simp add: six_sessions_state_def initial_state_def safeHistory_def
        emergencyHistory_def image_session_def numeral_eq_Suc)

lemma last_updateMessage:
  "inFlightLast bid s \<Longrightarrow> last (messages (updateMessage bid f s)) = f (last (messages s))"
  by (simp add: inFlightLast_def updateMessage_def last_map)

lemma inFlightLast_updateMessage:
  "inFlightLast bid s \<Longrightarrow> (\<And>m. msg_id (f m) = msg_id m) \<Longrightarrow>
   inFlightLast bid (updateMessage bid f s)"
  by (simp add: inFlightLast_def updateMessage_def last_map)

lemma inFlightLast_startTurn: "inFlightLast (botMessageId env) (startTurn env text' s)"
  by (simp add: inFlightLast_def startTurn_def Let_def)

lemma startTurn_last:
  "thinkingText (last (messages (startTurn env text' s))) = Some [] \<and>
   msg_text (last (messages (startTurn env text' s))) = []"
  by (simp add: startTurn_def Let_def)

lemma publishChunk_inv:
  assumes "inFlightLast bid s"
  shows "inFlightLast bid (publishChunk c bid should v s) \<and> carries v (publishChunk c bid should v s)"
proof -
  let ?s1 = "s\<lparr>fullTextRef := fullResponseText v\<rparr>"
  from assms have a: "inFlightLast bid ?s1" by (simp add: inFlightLast_def)
  show ?thesis
    unfolding publishChunk_def Let_def carries_def
    using inFlightLast_updateMessage [OF a] last_updateMessage [OF a]
    by simp
qed

lemma streamLoop_inv:
  "inFlightLast bid s \<Longrightarrow> carries v s \<Longrightarrow>
   inFlightLast bid (snd (streamLoop c bid should chunks v s)) \<and>
   carries (foldl (chunkVars (isThinkingEnabled c)) v chunks)
     (snd (streamLoop c bid should chunks v s))"
proof (induction chunks arbitrary: v s)
  case Nil
  then show ?case by simp
next
  case (Cons chunk chunks)
  let ?v = "chunkVars (isThinkingEnabled c) v chunk"
  from Cons.prems(1) have "inFlightLast bid (publishChunk c bid should ?v s)"
    and "carries ?v (publishChunk c bid should ?v s)"
    using publishChunk_inv by blast+
  from Cons.IH [OF this]
  have IH: "inFlightLast bid (snd (streamLoop c bid should chunks ?v (publishChunk c bid should ?v s))) \<and>
      carries (foldl (chunkVars (isThinkingEnabled c)) ?v chunks)
        (snd (streamLoop c bid should chunks ?v (publishChunk c bid should ?v s)))" .
  have step: "streamLoop c bid should (chunk # chunks) v s =
      streamLoop c bid should chunks ?v (publishChunk c bid should ?v s)"
    by (simp add: Let_def)
  have fold: "foldl (chunkVars (isThinkingEnabled c)) v (chunk # chunks) =
      foldl (chunkVars (isThinkingEnabled c)) ?v chunks"
    by simp
  show ?case unfolding step fold by (rule IH)
qed

lemma chatPathway_failed:
  assumes "inFlightLast bid s" and "carries initialStreamVars s"
    and "chatPathway env c bid should hasFile s = Inl failed"
  shows "inFlightLast bid failed \<and>
         carries (foldl (chunkVars (isThinkingEnabled c)) initialStreamVars (stream_chunks env)) failed"
proof -
  define st where "st = (\<lambda>f. updateMessage bid (\<lambda>msg. msg\<lparr>statusText := Some f\<rparr>) s)"
  have a: "inFlightLast bid (st f)" for f
    unfolding st_def using assms(1) by (rule inFlightLast_updateMessage) simp
  have b: "carries initialStreamVars (st f)" for f
    using assms(2) last_updateMessage [OF assms(1)]
    by (simp add: carries_def st_def)
  from assms(3) obtain f where
    "failed = snd (streamLoop c bid should (stream_chunks env) initialStreamVars (st f))"
    by (auto simp: chatPathway_def Let_def st_def split: if_splits)
  with streamLoop_inv [OF a [of f] b [of f], of c should "stream_chunks env"]
  show ?thesis by simp
qed

lemma editPathway_failed:
  assumes "inFlightLast bid s" and "editPathway env c bid s = Inl failed"
  shows "inFlightLast bid failed"
proof -
  from assms(2) have "failed = updateMessage bid
      (\<lambda>msg. msg\<lparr>statusText := Some ''Locking identity features & analyzing structure...''\<rparr>) s"
    by (auto simp: editPathway_def Let_def split: Result.splits)
  then show ?thesis using inFlightLast_updateMessage [OF assms(1)] by simp
qed

lemma imagenPathway_failed:
  assumes "inFlightLast bid s" and "imagenPathway env text' c bid s = Inl failed"
  shows "inFlightLast bid failed"
proof -
  let ?s1 = "updateMessage bid
      (\<lambda>msg. msg\<lparr>statusText := Some ''Optimizing prompt for Ultra Quality (8k)...''\<rparr>) s"
  have a: "inFlightLast bid ?s1"
    using assms(1) by (rule inFlightLast_updateMessage) simp
  from assms(2) have "failed = updateMessage bid
      (\<lambda>msg. msg\<lparr>statusText := Some ''Rendering high-fidelity image...''\<rparr>) ?s1"
    by (auto simp: imagenPathway_def Let_def split: Result.splits)
  then show ?thesis using inFlightLast_updateMessage [OF a] by simp
qed

lemma tryBlock_failed:
  assumes "inFlightLast bid s" and "carries initialStreamVars s"
    and "tryBlock env text' c bid should s = Inl failed"
  shows "inFlightLast bid failed \<and>
         (aiRef c \<and> isChatModel (model c) \<longrightarrow>
            carries (foldl (chunkVars (isThinkingEnabled c)) initialStreamVars (stream_chunks env))
              failed)"
proof (cases "aiRef c")
  case False
  with assms(3) have "failed = s" by (simp add: tryBlock_def Let_def)
  with assms(1) False show ?thesis by simp
next
  case True
  note ai = this
  show ?thesis
  proof (cases "isChatModel (model c)")
    case True
    then have "model c \<noteq> Gemini25FlashImage" and "model c \<noteq> Imagen4Generate001"
      by (auto simp: isChatModel_def chatModels_def)
    with assms(3) ai True
    have "chatPathway env c bid should (stagedFile c \<noteq> None) s = Inl failed"
      by (simp add: tryBlock_def Let_def split: if_splits)
    from chatPathway_failed [OF assms(1) assms(2) this] show ?thesis by simp
  next
    case False
    from assms(3) ai False
    have "editPathway env c bid s = Inl failed \<or> imagenPathway env text' c bid s = Inl failed"
      by (simp add: tryBlock_def Let_def split: if_splits)
    then have "inFlightLast bid failed"
      using editPathway_failed [OF assms(1)] imagenPathway_failed [OF assms(1)] by blast
    with False show ?thesis by simp
  qed
qed

text \<open>
  C4, as the code has it. When an exception leaves the \<open>try\<close> block of a turn, the busy
  flag is cleared and the in-flight message becomes the message as it was at the failure
  with \<open>isStreaming\<close> false and the apology as its text: every other field is kept. In the
  chat pathway the message at the failure carries the reasoning and the answer accumulated
  from the chunks received, so the reasoning stays and the answer text is overwritten.
\<close>

theorem failed_turn_message:
  assumes "\<not> isLoading s" and "js_trim text' \<noteq> [] \<or> stagedFile s \<noteq> None"
    and "tryBlock env text' s (botMessageId env) (shouldUseThinkingMode s)
           (startTurn env text' s) = Inl failed"
  shows "\<not> isLoading (handleSendMessage env text' s) \<and>
         last (messages (handleSendMessage env text' s)) =
           (last (messages failed))\<lparr>isStreaming := Some False, msg_text := apologyText\<rparr> \<and>
         (aiRef s \<and> isChatModel (model s) \<longrightarrow>
            thinkingText (last (messages failed)) =
              Some (fullThinkingText
                (foldl (chunkVars (isThinkingEnabled s)) initialStreamVars (stream_chunks env))) \<and>
            msg_text (last (messages failed)) =
              fullResponseText
                (foldl (chunkVars (isThinkingEnabled s)) initialStreamVars (stream_chunks env)))"
proof -
  have c0: "carries initialStreamVars (startTurn env text' s)"
    using startTurn_last [of env text' s] by (simp add: carries_def initialStreamVars_def)
  from tryBlock_failed [OF inFlightLast_startTurn c0 assms(3)]
  have inflight: "inFlightLast (botMessageId env) failed"
    and chat: "aiRef s \<and> isChatModel (model s) \<longrightarrow>
            carries (foldl (chunkVars (isThinkingEnabled s)) initialStreamVars (stream_chunks env))
              failed"
    by blast+
  from assms(1,2)
  have guard: "\<not> (isLoading s \<or> (js_trim text' = [] \<and> stagedFile s = None))"
    by blast
  have final: "handleSendMessage env text' s =
      (catchBlock (botMessageId env) failed)\<lparr>isLoading := False\<rparr>"
    unfolding handleSendMessage_def Let_def assms(3)
    by (simp only: guard if_False sum.case)
  have "last (messages (handleSendMessage env text' s)) =
           (last (messages failed))\<lparr>isStreaming := Some False, msg_text := apologyText\<rparr>"
    unfolding final catchBlock_def using last_updateMessage [OF inflight] by simp
  moreover have "\<not> isLoading (handleSendMessage env text' s)"
    unfolding final by simp
  ultimately show ?thesis using chat by (simp add: carries_def)
qed

text \<open>C4, as the code has it, at a chat turn whose stream throws after one chunk.\<close>

theorem failed_turn_message_witness:
  "\<not> isLoading chat_ready_state \<and>
   js_trim ''Hi'' \<noteq> [] \<and>
   isl (tryBlock failing_stream_env ''Hi'' chat_ready_state (botMessageId failing_stream_env)
          (shouldUseThinkingMode chat_ready_state)
          (startTurn failing_stream_env ''Hi'' chat_ready_state)) \<and>
   aiRef chat_ready_state \<and> isChatModel (model chat_ready_state) \<and>
   \<not> isLoading (handleSendMessage failing_stream_env ''Hi'' chat_ready_state) \<and>
   isStreaming (last (messages (handleSendMessage failing_stream_env ''Hi'' chat_ready_state)))
     = Some False \<and>
   msg_text (last (messages (handleSendMessage failing_stream_env ''Hi'' chat_ready_state)))
     = apologyText \<and>
   thinkingText (last (messages (handleSendMessage failing_stream_env ''Hi'' chat_ready_state)))
     = Some ''plan''"
  using failed_turn_message
          [of chat_ready_state "''Hi''" failing_stream_env
              "projl (tryBlock failing_stream_env ''Hi'' chat_ready_state
                 (botMessageId failing_stream_env) (shouldUseThinkingMode chat_ready_state)
                 (startTurn failing_stream_env ''Hi'' chat_ready_state))"]
  by (simp add: turn_defs parser_defs failing_stream_env_def chat_ready_state_def initial_state_def)

text \<open>C4 as stated fails: the answer text \<open>Paris\<close> received before the failure is not in
  the message afterwards; the reasoning \<open>plan\<close> is.\<close>

theorem failed_turn_counterexample:
  "fullResponseText (foldl (chunkVars True) initialStreamVars (stream_chunks failing_stream_env))
     = ''Paris'' \<and>
   msg_text (last (messages (handleSendMessage failing_stream_env ''Hi'' chat_ready_state)))
     = apologyText \<and>
   thinkingText (last (messages (handleSendMessage failing_stream_env ''Hi'' chat_ready_state)))
     = Some ''plan'' \<and>
   \<not> js_includes apologyText ''Paris''"
  by (simp add: turn_defs parser_defs failing_stream_env_def chat_ready_state_def initial_state_def
      apologyText_def)

end
